theory Spec2Isabelle
  imports Main "HOL-Library.Word" "HOL-Library.Monad_Syntax"
begin

unbundle bit_operations_syntax

section \<open>Data model of the memory manager (oscode2.h)\<close>

text \<open>
  All integers of the source are \<open>uint32_t\<close>; pointers are cast to and from
  \<open>uint32_t\<close> throughout, so a pointer is a 32-bit word and \<open>nullptr\<close> is 0.
  Arithmetic on \<open>32 word\<close> wraps around as the C arithmetic does.
\<close>

type_synonym ptr = "32 word"

datatype memory_type_t =
    MEM_TYPE_FREE
  | MEM_TYPE_KERNEL
  | MEM_TYPE_USER
  | MEM_TYPE_GAME
  | MEM_TYPE_GRAPHICS
  | MEM_TYPE_AUDIO
  | MEM_TYPE_RESERVED

text \<open>
  \<open>struct memory_block\<close>. The fields \<open>size\<close>, \<open>type\<close>, \<open>next\<close> and \<open>prev\<close> carry the
  suffix \<open>_blk\<close> because the plain names are taken in Isabelle.
\<close>

record memory_block =
  address :: "32 word"
  size_blk :: "32 word"
  type_blk :: memory_type_t
  process_id :: "32 word"
  is_free :: bool
  next_blk :: ptr
  prev_blk :: ptr

text \<open>\<open>process_memory_t\<close>; its \<open>process_id\<close> field is \<open>pm_process_id\<close> here.\<close>

record process_memory_t =
  pm_process_id :: "32 word"
  page_directory :: "32 word"
  heap_start :: "32 word"
  heap_end :: "32 word"
  stack_start :: "32 word"
  stack_end :: "32 word"
  code_start :: "32 word"
  code_end :: "32 word"
  total_allocated :: "32 word"
  is_active :: bool

text \<open>
  \<open>memory_manager_t\<close>. The array \<open>processes\<close> is a function of the index, the
  array behind \<open>page_frames\<close> is a function of the page index. The block headers
  that the source keeps inside the managed memory are the store \<open>blocks\<close>, keyed by
  the address of the header: \<open>blocks mm p\<close> is the header \<open>*(memory_block_t* )p\<close>.
  Two headers are the same object exactly when their pointers are equal. The store
  follows the source as long as no two headers that a run reads or writes overlap
  and no payload bytes are copied over a header; it has no bytes, so it cannot
  follow a split that writes the new header less than \<open>sizeof(memory_block_t)\<close> bytes
  from another header, nor the \<open>memmove\<close> of \<open>memory_defragment\<close>. The statements
  below about allocations are made for states and requests that keep the headers
  apart (\<open>far\<close>, \<open>plain_request\<close>); nothing is stated about the result of a
  defragmentation pass.
\<close>

record memory_manager_t =
  total_memory :: "32 word"
  available_memory :: "32 word"
  kernel_memory_start :: "32 word"
  kernel_memory_end :: "32 word"
  user_memory_start :: "32 word"
  user_memory_end :: "32 word"
  free_blocks :: ptr
  allocated_blocks :: ptr
  processes :: "32 word \<Rightarrow> process_memory_t"
  current_process :: "32 word"
  page_frames :: "32 word \<Rightarrow> 32 word"
  total_pages :: "32 word"
  free_pages :: "32 word"
  kernel_heap :: ptr
  user_heap :: ptr
  allocations :: "32 word"
  deallocations :: "32 word"
  fragmentation_count :: "32 word"
  blocks :: "ptr \<Rightarrow> memory_block"

definition PAGE_SIZE :: "32 word" where
  "PAGE_SIZE = 4096"

definition MAX_PROCESSES :: "32 word" where
  "MAX_PROCESSES = 64"

definition STACK_SIZE :: "32 word" where
  "STACK_SIZE = 1024 * 1024"

definition KERNEL_HEAP_SIZE :: "32 word" where
  "KERNEL_HEAP_SIZE = 8 * 1024 * 1024"

definition UINT32_MAX :: "32 word" where
  "UINT32_MAX = 0xFFFFFFFF"

text \<open>
  \<open>sizeof(memory_block_t)\<close> on the 32-bit target the pointer casts presuppose: four
  \<open>uint32_t\<close>-sized fields, a \<open>bool\<close> padded to four bytes and two pointers.
\<close>

definition sizeof_memory_block_t :: "32 word" where
  "sizeof_memory_block_t = 28"

text \<open>All-zero structures, as \<open>memset\<close> leaves them.\<close>

definition zero_block :: memory_block where
  "zero_block = \<lparr>address = 0, size_blk = 0, type_blk = MEM_TYPE_FREE, process_id = 0,
     is_free = False, next_blk = 0, prev_blk = 0\<rparr>"

definition zero_process :: process_memory_t where
  "zero_process = \<lparr>pm_process_id = 0, page_directory = 0, heap_start = 0, heap_end = 0,
     stack_start = 0, stack_end = 0, code_start = 0, code_end = 0, total_allocated = 0,
     is_active = False\<rparr>"

subsection \<open>Field writes through a header pointer\<close>

definition set_address :: "(ptr \<Rightarrow> memory_block) \<Rightarrow> ptr \<Rightarrow> 32 word \<Rightarrow> (ptr \<Rightarrow> memory_block)" where
  "set_address h p v = h(p := (h p)\<lparr>address := v\<rparr>)"

definition set_size :: "(ptr \<Rightarrow> memory_block) \<Rightarrow> ptr \<Rightarrow> 32 word \<Rightarrow> (ptr \<Rightarrow> memory_block)" where
  "set_size h p v = h(p := (h p)\<lparr>size_blk := v\<rparr>)"

definition set_type :: "(ptr \<Rightarrow> memory_block) \<Rightarrow> ptr \<Rightarrow> memory_type_t \<Rightarrow> (ptr \<Rightarrow> memory_block)" where
  "set_type h p v = h(p := (h p)\<lparr>type_blk := v\<rparr>)"

definition set_process_id :: "(ptr \<Rightarrow> memory_block) \<Rightarrow> ptr \<Rightarrow> 32 word \<Rightarrow> (ptr \<Rightarrow> memory_block)" where
  "set_process_id h p v = h(p := (h p)\<lparr>process_id := v\<rparr>)"

definition set_is_free :: "(ptr \<Rightarrow> memory_block) \<Rightarrow> ptr \<Rightarrow> bool \<Rightarrow> (ptr \<Rightarrow> memory_block)" where
  "set_is_free h p v = h(p := (h p)\<lparr>is_free := v\<rparr>)"

definition set_next :: "(ptr \<Rightarrow> memory_block) \<Rightarrow> ptr \<Rightarrow> ptr \<Rightarrow> (ptr \<Rightarrow> memory_block)" where
  "set_next h p v = h(p := (h p)\<lparr>next_blk := v\<rparr>)"

definition set_prev :: "(ptr \<Rightarrow> memory_block) \<Rightarrow> ptr \<Rightarrow> ptr \<Rightarrow> (ptr \<Rightarrow> memory_block)" where
  "set_prev h p v = h(p := (h p)\<lparr>prev_blk := v\<rparr>)"

section \<open>Release and coalescing\<close>

text \<open>
  \<open>merge_free_blocks\<close>: the \<open>while (block)\<close> loop over the free list. A loop that
  does not end (a cyclic list) has the value \<open>None\<close>.
\<close>

partial_function (option) merge_loop ::
  "(ptr \<Rightarrow> memory_block) \<Rightarrow> ptr \<Rightarrow> (ptr \<Rightarrow> memory_block) option" where
  "merge_loop h block =
    (if block = 0 then Some h
     else
       let next_block = next_blk (h block) in
       if next_block \<noteq> 0 \<and> is_free (h next_block) \<and>
          address (h block) + size_blk (h block) = address (h next_block)
       then
         let h1 = set_size h block (size_blk (h block) + size_blk (h next_block));
             h2 = set_next h1 block (next_blk (h1 next_block));
             h3 = (if next_blk (h2 next_block) \<noteq> 0
                   then set_prev h2 (next_blk (h2 next_block)) block else h2)
         in merge_loop h3 (next_blk (h3 block))
       else merge_loop h (next_blk (h block)))"

definition merge_free_blocks :: "memory_manager_t \<Rightarrow> memory_manager_t option" where
  "merge_free_blocks mm =
    do { h \<leftarrow> merge_loop (blocks mm) (free_blocks mm);
         Some (mm\<lparr>blocks := h\<rparr>) }"

text \<open>The search loop of \<open>memory_free\<close>: the first block of the list whose address is \<open>addr\<close>, or null.\<close>

partial_function (option) find_allocated ::
  "(ptr \<Rightarrow> memory_block) \<Rightarrow> ptr \<Rightarrow> 32 word \<Rightarrow> ptr option" where
  "find_allocated h block addr =
    (if block = 0 then Some 0
     else if address (h block) = addr then Some block
     else find_allocated h (next_blk (h block)) addr)"

text \<open>
  The straight-line part of \<open>memory_free\<close> between the search and the call of
  \<open>merge_free_blocks\<close>, one store update per assignment of the source.
\<close>

definition release_block :: "memory_manager_t \<Rightarrow> ptr \<Rightarrow> memory_manager_t" where
  "release_block mm block =
    (let h = blocks mm;
         h1 = (if prev_blk (h block) \<noteq> 0
               then set_next h (prev_blk (h block)) (next_blk (h block)) else h);
         ab = (if prev_blk (h block) \<noteq> 0
               then allocated_blocks mm else next_blk (h block));
         h2 = (if next_blk (h1 block) \<noteq> 0
               then set_prev h1 (next_blk (h1 block)) (prev_blk (h1 block)) else h1);
         h3 = set_type h2 block MEM_TYPE_FREE;
         h4 = set_process_id h3 block 0;
         h5 = set_is_free h4 block True;
         h6 = set_prev h5 block 0;
         h7 = set_next h6 block (free_blocks mm);
         h8 = (if free_blocks mm \<noteq> 0 then set_prev h7 (free_blocks mm) block else h7)
     in mm\<lparr>blocks := h8,
           allocated_blocks := ab,
           free_blocks := block,
           deallocations := deallocations mm + 1,
           available_memory := available_memory mm + size_blk (h8 block)\<rparr>)"

text \<open>\<open>memory_free\<close>: the status (0, or -1 for the error) and the state after the call.\<close>

definition memory_free :: "memory_manager_t \<Rightarrow> ptr \<Rightarrow> (int \<times> memory_manager_t) option" where
  "memory_free mm p =
    (if p = 0 then Some (- 1, mm)
     else
       do { block \<leftarrow> find_allocated (blocks mm) (allocated_blocks mm) p;
            if block = 0 then Some (- 1, mm)
            else do { mm' \<leftarrow> merge_free_blocks (release_block mm block);
                      Some (0, mm') } })"

section \<open>Search, defragmentation and allocation\<close>

text \<open>The expression \<open>(address + alignment - 1) & ~(alignment - 1)\<close> of the source.\<close>

definition aligned_addr_of :: "32 word \<Rightarrow> 32 word \<Rightarrow> 32 word" where
  "aligned_addr_of addr al = (addr + al - 1) AND NOT (al - 1)"

text \<open>
  \<open>find_free_block\<close>: the loop carries \<open>best_fit\<close> and \<open>best_size\<close>, which start
  as null and \<open>UINT32_MAX\<close>.
\<close>

partial_function (option) find_free_loop ::
  "(ptr \<Rightarrow> memory_block) \<Rightarrow> 32 word \<Rightarrow> 32 word \<Rightarrow> ptr \<Rightarrow> ptr \<Rightarrow> 32 word \<Rightarrow> ptr option" where
  "find_free_loop h sz al block best_fit best_size =
    (if block = 0 then Some best_fit
     else if is_free (h block) \<and> sz \<le> size_blk (h block) then
       let aligned_addr = aligned_addr_of (address (h block)) al;
           padding = aligned_addr - address (h block)
       in if sz + padding \<le> size_blk (h block) then
            if size_blk (h block) < best_size
            then find_free_loop h sz al (next_blk (h block)) block (size_blk (h block))
            else find_free_loop h sz al (next_blk (h block)) best_fit best_size
          else find_free_loop h sz al (next_blk (h block)) best_fit best_size
     else find_free_loop h sz al (next_blk (h block)) best_fit best_size)"

definition find_free_block :: "memory_manager_t \<Rightarrow> 32 word \<Rightarrow> 32 word \<Rightarrow> ptr option" where
  "find_free_block mm sz al = find_free_loop (blocks mm) sz al (free_blocks mm) 0 UINT32_MAX"

text \<open>
  \<open>memory_defragment\<close>: the loop over the allocated list carries the cursor
  \<open>new_address\<close>. The \<open>memmove\<close> of the payload has no counterpart here, since
  the payload bytes are not part of the store of headers: the function is
  embedded only as the step of \<open>memory_alloc_aligned\<close> between its two searches, and
  its result is exact only when no block is moved onto a header.
\<close>

partial_function (option) defragment_loop ::
  "(ptr \<Rightarrow> memory_block) \<Rightarrow> ptr \<Rightarrow> 32 word \<Rightarrow> ((ptr \<Rightarrow> memory_block) \<times> 32 word) option" where
  "defragment_loop h block new_address =
    (if block = 0 then Some (h, new_address)
     else if \<not> is_free (h block) then
       let h1 = (if address (h block) \<noteq> new_address
                 then set_address h block new_address else h)
       in defragment_loop h1 (next_blk (h1 block)) (new_address + size_blk (h1 block))
     else defragment_loop h (next_blk (h block)) new_address)"

definition memory_defragment :: "memory_manager_t \<Rightarrow> memory_manager_t option" where
  "memory_defragment mm =
    do { r \<leftarrow> defragment_loop (blocks mm) (allocated_blocks mm) (user_memory_start mm);
         let h = fst r;
             new_address = snd r;
             h1 = (if free_blocks mm \<noteq> 0
                   then set_address h (free_blocks mm) new_address else h);
             h2 = (if free_blocks mm \<noteq> 0
                   then set_size h1 (free_blocks mm) (user_memory_end mm - new_address) else h1)
         in Some (mm\<lparr>blocks := h2, fragmentation_count := fragmentation_count mm + 1\<rparr>) }"

text \<open>
  The body of \<open>if (block->size > size + padding + sizeof(memory_block_t))\<close>. The
  stores through \<open>new_block\<close> are exact when the new header overlaps no other header
  that is read afterwards, which is what \<open>plain_request\<close> below demands.
\<close>

definition split_block ::
  "(ptr \<Rightarrow> memory_block) \<Rightarrow> ptr \<Rightarrow> 32 word \<Rightarrow> 32 word \<Rightarrow> 32 word \<Rightarrow> (ptr \<Rightarrow> memory_block)" where
  "split_block h block aligned_addr padding sz =
    (let new_block = aligned_addr + sz;
         s1 = set_address h new_block (aligned_addr + sz);
         s2 = set_size s1 new_block (size_blk (s1 block) - sz - padding);
         s3 = set_type s2 new_block MEM_TYPE_FREE;
         s4 = set_process_id s3 new_block 0;
         s5 = set_is_free s4 new_block True;
         s6 = set_next s5 new_block (next_blk (s5 block));
         s7 = set_prev s6 new_block block;
         s8 = (if next_blk (s7 block) \<noteq> 0
               then set_prev s7 (next_blk (s7 block)) new_block else s7);
         s9 = set_next s8 block new_block
     in set_size s9 block (sz + padding))"

text \<open>
  The part of \<open>memory_alloc_aligned\<close> after a block has been found: the returned
  address and the state after the call.
\<close>

definition allocate_block ::
  "memory_manager_t \<Rightarrow> ptr \<Rightarrow> 32 word \<Rightarrow> 32 word \<Rightarrow> memory_type_t \<Rightarrow> 32 word \<times> memory_manager_t" where
  "allocate_block mm block sz al ty =
    (let h = blocks mm;
         aligned_addr = aligned_addr_of (address (h block)) al;
         padding = aligned_addr - address (h block);
         h0 = (if sz + padding + sizeof_memory_block_t < size_blk (h block)
               then split_block h block aligned_addr padding sz else h);
         h1 = set_type h0 block ty;
         h2 = set_process_id h1 block (current_process mm);
         h3 = set_is_free h2 block False;
         h4 = set_address h3 block aligned_addr;
         h5 = (if prev_blk (h4 block) \<noteq> 0
               then set_next h4 (prev_blk (h4 block)) (next_blk (h4 block)) else h4);
         fb = (if prev_blk (h4 block) \<noteq> 0 then free_blocks mm else next_blk (h4 block));
         h6 = (if next_blk (h5 block) \<noteq> 0
               then set_prev h5 (next_blk (h5 block)) (prev_blk (h5 block)) else h5);
         h7 = set_prev h6 block 0;
         h8 = set_next h7 block (allocated_blocks mm);
         h9 = (if allocated_blocks mm \<noteq> 0
               then set_prev h8 (allocated_blocks mm) block else h8)
     in (aligned_addr,
         mm\<lparr>blocks := h9,
            free_blocks := fb,
            allocated_blocks := block,
            allocations := allocations mm + 1,
            available_memory := available_memory mm - sz\<rparr>))"

text \<open>
  The search of \<open>memory_alloc_aligned\<close>, with one defragmentation and a second
  search when the first finds nothing: the block found (or null) and the state.
\<close>

definition search_block ::
  "memory_manager_t \<Rightarrow> 32 word \<Rightarrow> 32 word \<Rightarrow> (ptr \<times> memory_manager_t) option" where
  "search_block mm sz al =
    do { block \<leftarrow> find_free_block mm sz al;
         if block = 0
         then do { mm1 \<leftarrow> memory_defragment mm;
                   block1 \<leftarrow> find_free_block mm1 sz al;
                   Some (block1, mm1) }
         else Some (block, mm) }"

text \<open>\<open>memory_alloc_aligned\<close>: the returned pointer (0 is \<open>nullptr\<close>) and the state.\<close>

definition memory_alloc_aligned ::
  "memory_manager_t \<Rightarrow> 32 word \<Rightarrow> 32 word \<Rightarrow> memory_type_t \<Rightarrow> (ptr \<times> memory_manager_t) option" where
  "memory_alloc_aligned mm sz al ty =
    (if sz = 0 then Some (0, mm)
     else
       do { r \<leftarrow> search_block mm sz al;
            if fst r = 0 then Some (0, snd r)
            else Some (allocate_block (snd r) (fst r) sz al ty) })"

definition memory_alloc ::
  "memory_manager_t \<Rightarrow> 32 word \<Rightarrow> memory_type_t \<Rightarrow> (ptr \<times> memory_manager_t) option" where
  "memory_alloc mm sz ty = memory_alloc_aligned mm sz 4 ty"

section \<open>Initialisation\<close>

text \<open>The loop \<open>for (i = 0; i < total_pages; i++) page_frames[i] = 0\<close>, from index \<open>i\<close> on.\<close>

function init_pages_loop :: "(32 word \<Rightarrow> 32 word) \<Rightarrow> 32 word \<Rightarrow> 32 word \<Rightarrow> (32 word \<Rightarrow> 32 word)" where
  "init_pages_loop pf n i = (if i < n then init_pages_loop (pf(i := 0)) n (i + 1) else pf)"
  by pat_completeness auto
termination
proof (relation "measure (\<lambda>(pf, n, i). unat n - unat i)")
  show "wf (measure (\<lambda>(pf :: 32 word \<Rightarrow> 32 word, n :: 32 word, i :: 32 word). unat n - unat i))"
    by simp
next
  fix pf :: "32 word \<Rightarrow> 32 word" and n i :: "32 word"
  assume "i < n"
  then have "unat n - unat (i + 1) < unat n - unat i"
    by unat_arith
  then show "((pf(i := 0), n, i + 1), pf, n, i) \<in> measure (\<lambda>(pf, n, i). unat n - unat i)"
    by simp
qed

declare init_pages_loop.simps [simp del]

text \<open>
  \<open>memory_init\<close>. The \<open>memset\<close> clears the fields of the manager; the memory behind
  the block headers and the page array keeps what it held (the argument \<open>mm\<close>
  supplies it) except where the function writes.
\<close>

definition memory_init :: "memory_manager_t \<Rightarrow> 32 word \<Rightarrow> 32 word \<Rightarrow> int \<times> memory_manager_t" where
  "memory_init mm total_mem kernel_start =
    (let kernel_end = kernel_start + KERNEL_HEAP_SIZE;
         pages = total_mem div PAGE_SIZE;
         initial_block = kernel_end;
         h1 = set_address (blocks mm) initial_block (kernel_end + sizeof_memory_block_t);
         h2 = set_size h1 initial_block (total_mem - address (h1 initial_block));
         h3 = set_type h2 initial_block MEM_TYPE_FREE;
         h4 = set_process_id h3 initial_block 0;
         h5 = set_is_free h4 initial_block True;
         h6 = set_next h5 initial_block 0;
         h7 = set_prev h6 initial_block 0
     in (0, \<lparr>total_memory = total_mem,
              available_memory = total_mem,
              kernel_memory_start = kernel_start,
              kernel_memory_end = kernel_end,
              user_memory_start = kernel_end,
              user_memory_end = total_mem,
              free_blocks = initial_block,
              allocated_blocks = 0,
              processes = (\<lambda>_. zero_process),
              current_process = 0,
              page_frames = init_pages_loop (page_frames mm) pages 0,
              total_pages = pages,
              free_pages = pages,
              kernel_heap = 0,
              user_heap = 0,
              allocations = 0,
              deallocations = 0,
              fragmentation_count = 0,
              blocks = h7\<rparr>))"

section \<open>Process memory contexts\<close>

definition process_memory_create ::
  "memory_manager_t \<Rightarrow> 32 word \<Rightarrow> 32 word \<Rightarrow> (int \<times> memory_manager_t) option" where
  "process_memory_create mm pid code_size =
    (if MAX_PROCESSES \<le> pid then Some (- 1, mm)
     else
       do { c \<leftarrow> memory_alloc mm code_size MEM_TYPE_USER;
            let mm1 = (snd c)\<lparr>processes := (processes (snd c))
                        (pid := (processes (snd c) pid)\<lparr>code_start := fst c\<rparr>)\<rparr> in
            if fst c = 0 then Some (- 1, mm1)
            else
              do { let mm2 = mm1\<lparr>processes := (processes mm1)
                        (pid := (processes mm1 pid)\<lparr>code_end := fst c + code_size\<rparr>)\<rparr>;
                   s \<leftarrow> memory_alloc mm2 STACK_SIZE MEM_TYPE_USER;
                   let mm3 = (snd s)\<lparr>processes := (processes (snd s))
                        (pid := (processes (snd s) pid)\<lparr>stack_start := fst s\<rparr>)\<rparr> in
                   if fst s = 0
                   then do { f \<leftarrow> memory_free mm3 (code_start (processes mm3 pid));
                             Some (- 1, snd f) }
                   else
                     let proc = processes mm3 pid;
                         proc1 = proc\<lparr>stack_end := stack_start proc + STACK_SIZE\<rparr>;
                         proc2 = proc1\<lparr>heap_start := code_end proc1\<rparr>;
                         proc3 = proc2\<lparr>heap_end := heap_start proc2\<rparr>;
                         proc4 = proc3\<lparr>pm_process_id := pid\<rparr>;
                         proc5 = proc4\<lparr>total_allocated := code_size + STACK_SIZE\<rparr>;
                         proc6 = proc5\<lparr>is_active := True\<rparr>
                     in Some (0, mm3\<lparr>processes := (processes mm3)(pid := proc6)\<rparr>) } })"

text \<open>
  The loop of \<open>process_memory_destroy\<close>: \<open>next\<close> is read before the block is
  released.
\<close>

partial_function (option) destroy_loop ::
  "memory_manager_t \<Rightarrow> 32 word \<Rightarrow> ptr \<Rightarrow> memory_manager_t option" where
  "destroy_loop mm pid block =
    (if block = 0 then Some mm
     else
       let nxt = next_blk (blocks mm block) in
       if process_id (blocks mm block) = pid
       then do { f \<leftarrow> memory_free mm (address (blocks mm block));
                 destroy_loop (snd f) pid nxt }
       else destroy_loop mm pid nxt)"

definition process_memory_destroy ::
  "memory_manager_t \<Rightarrow> 32 word \<Rightarrow> (int \<times> memory_manager_t) option" where
  "process_memory_destroy mm pid =
    (if MAX_PROCESSES \<le> pid then Some (- 1, mm)
     else if \<not> is_active (processes mm pid) then Some (- 1, mm)
     else
       do { mm1 \<leftarrow> destroy_loop mm pid (allocated_blocks mm);
            Some (0, mm1\<lparr>processes := (processes mm1)(pid := zero_process)\<rparr>) })"

definition process_alloc ::
  "memory_manager_t \<Rightarrow> 32 word \<Rightarrow> 32 word \<Rightarrow> (ptr \<times> memory_manager_t) option" where
  "process_alloc mm pid sz =
    (if MAX_PROCESSES \<le> pid then Some (0, mm)
     else if \<not> is_active (processes mm pid) then Some (0, mm)
     else
       do { let old_process = current_process mm;
            a \<leftarrow> memory_alloc (mm\<lparr>current_process := pid\<rparr>) sz MEM_TYPE_USER;
            let mm1 = (if fst a \<noteq> 0
                       then (snd a)\<lparr>processes := (processes (snd a))
                              (pid := (processes (snd a) pid)
                                 \<lparr>total_allocated := total_allocated (processes (snd a) pid) + sz\<rparr>)\<rparr>
                       else snd a)
            in Some (fst a, mm1\<lparr>current_process := old_process\<rparr>) })"

section \<open>Page frames\<close>

text \<open>The loop of \<open>alloc_page\<close> from index \<open>i\<close> on: the returned value and the state.\<close>

function alloc_page_loop :: "memory_manager_t \<Rightarrow> 32 word \<Rightarrow> 32 word \<times> memory_manager_t" where
  "alloc_page_loop mm i =
    (if i < total_pages mm then
       if page_frames mm i = 0
       then (i * PAGE_SIZE,
             mm\<lparr>page_frames := (page_frames mm)(i := 1), free_pages := free_pages mm - 1\<rparr>)
       else alloc_page_loop mm (i + 1)
     else (0, mm))"
  by pat_completeness auto
termination
proof (relation "measure (\<lambda>(mm, i). unat (total_pages mm) - unat i)")
  show "wf (measure (\<lambda>(mm :: memory_manager_t, i :: 32 word). unat (total_pages mm) - unat i))"
    by simp
next
  fix mm :: memory_manager_t and i :: "32 word"
  assume "i < total_pages mm"
  then have "unat (total_pages mm) - unat (i + 1) < unat (total_pages mm) - unat i"
    by unat_arith
  then show "((mm, i + 1), mm, i) \<in> measure (\<lambda>(mm, i). unat (total_pages mm) - unat i)"
    by simp
qed

declare alloc_page_loop.simps [simp del]

definition alloc_page :: "memory_manager_t \<Rightarrow> 32 word \<times> memory_manager_t" where
  "alloc_page mm = alloc_page_loop mm 0"

definition free_page :: "memory_manager_t \<Rightarrow> 32 word \<Rightarrow> memory_manager_t" where
  "free_page mm page =
    (let page_index = page div PAGE_SIZE in
     if page_index < total_pages mm \<and> page_frames mm page_index = 1
     then mm\<lparr>page_frames := (page_frames mm)(page_index := 0), free_pages := free_pages mm + 1\<rparr>
     else mm)"

definition memory_get_stats :: "memory_manager_t \<Rightarrow> 32 word \<times> 32 word \<times> 32 word" where
  "memory_get_stats mm = (total_memory mm, available_memory mm, fragmentation_count mm)"

section \<open>Lists in the store\<close>

text \<open>
  The nodes of a null-terminated list in the store: \<open>chain h p ps\<close> holds when following
  \<open>next\<close> from \<open>p\<close> visits exactly the headers \<open>ps\<close> and then reaches null.
\<close>

fun chain :: "(ptr \<Rightarrow> memory_block) \<Rightarrow> ptr \<Rightarrow> ptr list \<Rightarrow> bool" where
  "chain h p [] = (p = 0)"
| "chain h p (q # qs) = (p \<noteq> 0 \<and> p = q \<and> chain h (next_blk (h p)) qs)"

subsection \<open>Concrete states for the examples\<close>

text \<open>A manager whose fields and whose memory are all zero, as after \<open>memset\<close>.\<close>

definition zero_manager :: memory_manager_t where
  "zero_manager = \<lparr>total_memory = 0, available_memory = 0, kernel_memory_start = 0,
     kernel_memory_end = 0, user_memory_start = 0, user_memory_end = 0, free_blocks = 0,
     allocated_blocks = 0, processes = (\<lambda>_. zero_process), current_process = 0,
     page_frames = (\<lambda>_. 0), total_pages = 0, free_pages = 0, kernel_heap = 0, user_heap = 0,
     allocations = 0, deallocations = 0, fragmentation_count = 0,
     blocks = (\<lambda>_. zero_block)\<rparr>"

text \<open>A block header with the given address, size, free flag and links (owner 0).\<close>

definition mk_block :: "32 word \<Rightarrow> 32 word \<Rightarrow> bool \<Rightarrow> ptr \<Rightarrow> ptr \<Rightarrow> memory_block" where
  "mk_block a s f n p = \<lparr>address = a, size_blk = s,
     type_blk = (if f then MEM_TYPE_FREE else MEM_TYPE_USER), process_id = 0,
     is_free = f, next_blk = n, prev_blk = p\<rparr>"

section \<open>Release: error paths\<close>

lemma find_allocated_absent:
  "chain h p ps \<Longrightarrow> \<forall>q \<in> set ps. address (h q) \<noteq> addr \<Longrightarrow> find_allocated h p addr = Some 0"
proof (induction ps arbitrary: p)
  case Nil
  then show ?case by (simp add: find_allocated.simps)
next
  case (Cons q qs)
  then show ?case by (subst find_allocated.simps) auto
qed

text \<open>
  C10. Releasing the null pointer returns the error status at once: the result
  does not depend on the lists (it is defined even when the allocated list is
  cyclic) and the manager state is returned as it was.
\<close>

theorem C10_memory_free_null: "memory_free mm 0 = Some (- 1, mm)"
  by (simp add: memory_free_def)

text \<open>
  C6. When the allocated list is a null-terminated list and no block in it has
  the address \<open>addr\<close>, releasing \<open>addr\<close> returns the error status -1 and the whole
  manager state, with its counters and \<open>available_memory\<close>, is unchanged.
\<close>

theorem C6_memory_free_not_found:
  assumes "chain (blocks mm) (allocated_blocks mm) ps"
    and "\<forall>q \<in> set ps. address (blocks mm q) \<noteq> addr"
  shows "memory_free mm addr = Some (- 1, mm)"
  using find_allocated_absent [OF assms] by (simp add: memory_free_def)

text \<open>
  An allocated list of two blocks, with addresses 0x2000 and 0x3000; the address
  0x2004 lies inside the first block but is the address of neither.
\<close>

definition two_allocated :: memory_manager_t where
  "two_allocated = zero_manager\<lparr>allocated_blocks := 0x1000,
     blocks := (\<lambda>_. zero_block)
       (0x1000 := mk_block 0x2000 0x100 False 0x1800 0,
        0x1800 := mk_block 0x3000 0x100 False 0 0x1000)\<rparr>"

theorem C6_memory_free_not_found_witness:
  "chain (blocks two_allocated) (allocated_blocks two_allocated) [0x1000, 0x1800] \<and>
   address (blocks two_allocated 0x1000) \<noteq> 0x2004 \<and>
   address (blocks two_allocated 0x1800) \<noteq> 0x2004 \<and>
   memory_free two_allocated 0x2004 = Some (- 1, two_allocated)"
proof -
  have c: "chain (blocks two_allocated) (allocated_blocks two_allocated) [0x1000, 0x1800]"
    by (simp add: two_allocated_def zero_manager_def mk_block_def)
  have a: "\<forall>q \<in> set [0x1000, 0x1800]. address (blocks two_allocated q) \<noteq> 0x2004"
    by (simp add: two_allocated_def zero_manager_def mk_block_def)
  have a1: "address (blocks two_allocated 0x1000) \<noteq> 0x2004"
    and a2: "address (blocks two_allocated 0x1800) \<noteq> 0x2004"
    by (simp_all add: two_allocated_def zero_manager_def mk_block_def)
  from C6_memory_free_not_found [OF c a] c a1 a2 show ?thesis by blast
qed


section \<open>Alignment of the returned address\<close>

lemma and_not_mask_and_mask: "((x :: 32 word) AND NOT (mask k)) AND mask k = 0"
  by (rule bit_word_eqI) (auto simp: bit_simps)

lemma aligned_addr_of_dvd:
  assumes "unat al = 2 ^ k"
  shows "unat al dvd unat (aligned_addr_of a al)"
proof -
  have "al = of_nat (unat al)" by simp
  also have "\<dots> = 2 ^ k" by (simp only: assms) simp
  finally have al: "al = 2 ^ k" .
  have "2 ^ k dvd unat (aligned_addr_of a (2 ^ k))"
    by (simp add: aligned_addr_of_def and_mask_dvd_nat and_not_mask_and_mask
        flip: mask_eq_exp_minus_1)
  then show ?thesis using assms al by simp
qed

lemma fst_allocate_block:
  "fst (allocate_block mm block sz al ty) = aligned_addr_of (address (blocks mm block)) al"
  by (simp add: allocate_block_def Let_def)

text \<open>
  C7. Whatever \<open>memory_alloc_aligned\<close> returns for an alignment that is a power
  of two (16 in particular) is a multiple of the alignment: a successful call
  returns the aligned address, a failing call returns 0.
\<close>

theorem C7_alignment:
  assumes "memory_alloc_aligned mm sz al ty = Some (r, mm')"
    and "unat al = 2 ^ k"
  shows "unat al dvd unat r"
proof -
  from assms(1) have "r = 0 \<or> (\<exists>m b. r = fst (allocate_block m b sz al ty))"
    by (auto simp: memory_alloc_aligned_def split: if_splits Option.bind_splits)
      (metis fst_conv)
  then show ?thesis
    using aligned_addr_of_dvd [OF assms(2)] by (auto simp: fst_allocate_block)
qed

text \<open>
  One free block of 0x1FE4 bytes at 0x101C, whose header is at 0x1000: the first
  address at or after 0x101C that is divisible by 16 is 0x1020.
\<close>

definition one_free :: memory_manager_t where
  "one_free = zero_manager\<lparr>free_blocks := 0x1000, user_memory_start := 0x1000,
     user_memory_end := 0x3000,
     blocks := (\<lambda>_. zero_block)(0x1000 := mk_block 0x101C 0x1FE4 True 0 0)\<rparr>"

lemma one_free_find: "find_free_block one_free 0x20 0x10 = Some 0x1000"
  by (simp add: find_free_block_def find_free_loop.simps one_free_def zero_manager_def mk_block_def
      aligned_addr_of_def UINT32_MAX_def Let_def)

lemma one_free_alloc: "map_option fst (memory_alloc_aligned one_free 0x20 0x10 MEM_TYPE_USER) = Some 0x1020"
  by (simp add: memory_alloc_aligned_def search_block_def one_free_find fst_allocate_block)
   (simp add: one_free_def zero_manager_def mk_block_def aligned_addr_of_def)

theorem C7_alignment_witness:
  "map_option fst (memory_alloc_aligned one_free 0x20 0x10 MEM_TYPE_USER) = Some 0x1020 \<and>
   unat (0x10 :: 32 word) = 2 ^ 4 \<and> unat (0x10 :: 32 word) dvd unat (0x1020 :: 32 word)"
proof -
  have r: "map_option fst (memory_alloc_aligned one_free 0x20 0x10 MEM_TYPE_USER) = Some 0x1020"
    by (rule one_free_alloc)
  then obtain mm' where a: "memory_alloc_aligned one_free 0x20 0x10 MEM_TYPE_USER = Some (0x1020, mm')"
    by auto
  have p: "unat (0x10 :: 32 word) = 2 ^ 4" by simp
  from C7_alignment [OF a p] r p show ?thesis by blast
qed

section \<open>The page frame allocator\<close>

lemma alloc_page_loop_none:
  "(\<And>j. i \<le> j \<Longrightarrow> j < total_pages mm \<Longrightarrow> page_frames mm j \<noteq> 0) \<Longrightarrow> alloc_page_loop mm i = (0, mm)"
proof (induction mm i rule: alloc_page_loop.induct)
  case (1 mm i)
  show ?case
  proof (cases "i < total_pages mm")
    case True
    have nz: "page_frames mm i \<noteq> 0" using "1.prems" [of i] True by simp
    have "alloc_page_loop mm (i + 1) = (0, mm)"
    proof (rule "1.IH" [OF True nz])
      fix j assume "i + 1 \<le> j" "j < total_pages mm"
      moreover have "i \<le> j" using \<open>i + 1 \<le> j\<close> True by unat_arith
      ultimately show "page_frames mm j \<noteq> 0" using "1.prems" by blast
    qed
    then show ?thesis using True nz by (subst alloc_page_loop.simps) simp
  next
    case False
    then show ?thesis by (subst alloc_page_loop.simps) simp
  qed
qed

lemma alloc_page_loop_first:
  "k \<le> i \<Longrightarrow> i < total_pages mm \<Longrightarrow> page_frames mm i = 0 \<Longrightarrow>
   (\<And>j. k \<le> j \<Longrightarrow> j < i \<Longrightarrow> page_frames mm j \<noteq> 0) \<Longrightarrow>
   alloc_page_loop mm k =
     (i * PAGE_SIZE, mm\<lparr>page_frames := (page_frames mm)(i := 1), free_pages := free_pages mm - 1\<rparr>)"
proof (induction mm k rule: alloc_page_loop.induct)
  case (1 mm k)
  have lt: "k < total_pages mm" using "1.prems"(1,2) by simp
  show ?case
  proof (cases "k = i")
    case True
    then show ?thesis using "1.prems"(2,3) by (subst alloc_page_loop.simps) simp
  next
    case False
    then have ki: "k < i" using "1.prems"(1) by simp
    have nz: "page_frames mm k \<noteq> 0" using "1.prems"(4) [of k] ki by simp
    have le: "k + 1 \<le> i" using ki by (rule inc_le)
    have "alloc_page_loop mm (k + 1) =
      (i * PAGE_SIZE, mm\<lparr>page_frames := (page_frames mm)(i := 1), free_pages := free_pages mm - 1\<rparr>)"
    proof (rule "1.IH" [OF lt nz le "1.prems"(2,3)])
      fix j assume "k + 1 \<le> j" "j < i"
      moreover have "k \<le> j" using \<open>k + 1 \<le> j\<close> ki by unat_arith
      ultimately show "page_frames mm j \<noteq> 0" using "1.prems"(4) by blast
    qed
    then show ?thesis using lt nz by (subst alloc_page_loop.simps) simp
  qed
qed

text \<open>
  C9. \<open>alloc_page\<close> returns 0 and leaves the state unchanged when no entry below
  \<open>total_pages\<close> is 0; otherwise it marks the first entry \<open>i\<close> that is 0, decrements
  \<open>free_pages\<close> and returns \<open>i * PAGE_SIZE\<close> (a 32-bit product). When page 0 is
  free the call succeeds and returns 0 as well, the value of the failing call.
\<close>

theorem C9_alloc_page:
  "((\<forall>j. j < total_pages mm \<longrightarrow> page_frames mm j \<noteq> 0) \<longrightarrow> alloc_page mm = (0, mm)) \<and>
   (\<forall>i. i < total_pages mm \<and> page_frames mm i = 0 \<and> (\<forall>j. j < i \<longrightarrow> page_frames mm j \<noteq> 0) \<longrightarrow>
        alloc_page mm = (i * PAGE_SIZE,
          mm\<lparr>page_frames := (page_frames mm)(i := 1), free_pages := free_pages mm - 1\<rparr>)) \<and>
   (0 < total_pages mm \<and> page_frames mm 0 = 0 \<longrightarrow> fst (alloc_page mm) = 0)"
proof (intro conjI allI impI)
  assume "\<forall>j. j < total_pages mm \<longrightarrow> page_frames mm j \<noteq> 0"
  then show "alloc_page mm = (0, mm)"
    unfolding alloc_page_def by (intro alloc_page_loop_none) blast
next
  fix i
  assume "i < total_pages mm \<and> page_frames mm i = 0 \<and> (\<forall>j. j < i \<longrightarrow> page_frames mm j \<noteq> 0)"
  then show "alloc_page mm = (i * PAGE_SIZE,
          mm\<lparr>page_frames := (page_frames mm)(i := 1), free_pages := free_pages mm - 1\<rparr>)"
    unfolding alloc_page_def by (intro alloc_page_loop_first) auto
next
  assume "0 < total_pages mm \<and> page_frames mm 0 = 0"
  then show "fst (alloc_page mm) = 0"
    unfolding alloc_page_def by (subst alloc_page_loop.simps) simp
qed

text \<open>
  Two pages: both free, the first one taken, and both taken. A call on the first
  state gives the second and returns 0; a call on the full state returns 0 too.
\<close>

definition pages_fresh :: memory_manager_t where
  "pages_fresh = zero_manager\<lparr>total_pages := 2, free_pages := 2\<rparr>"

definition pages_one_used :: memory_manager_t where
  "pages_one_used = zero_manager\<lparr>total_pages := 2, free_pages := 1, page_frames := (\<lambda>_. 0)(0 := 1)\<rparr>"

definition pages_full :: memory_manager_t where
  "pages_full = zero_manager\<lparr>total_pages := 2, free_pages := 0, page_frames := (\<lambda>_. 1)\<rparr>"

theorem C9_alloc_page_witness:
  "alloc_page pages_full = (0, pages_full) \<and>
   fst (alloc_page pages_fresh) = 0 \<and>
   snd (alloc_page pages_fresh) = pages_one_used \<and>
   fst (alloc_page pages_one_used) = 0x1000"
proof -
  have full: "\<forall>j. j < total_pages pages_full \<longrightarrow> page_frames pages_full j \<noteq> 0"
    by (simp add: pages_full_def zero_manager_def)
  have fresh: "0 < total_pages pages_fresh \<and> page_frames pages_fresh 0 = 0 \<and>
      (\<forall>j. j < 0 \<longrightarrow> page_frames pages_fresh j \<noteq> 0)"
    by (simp add: pages_fresh_def zero_manager_def)
  have one: "1 < total_pages pages_one_used \<and> page_frames pages_one_used 1 = 0 \<and>
      (\<forall>j. j < 1 \<longrightarrow> page_frames pages_one_used j \<noteq> 0)"
    by (simp add: pages_one_used_def zero_manager_def word_less_1)
  from C9_alloc_page [of pages_full] full
  have 1: "alloc_page pages_full = (0, pages_full)" by blast
  from C9_alloc_page [of pages_fresh] fresh
  have 2: "alloc_page pages_fresh = (0 * PAGE_SIZE,
      pages_fresh\<lparr>page_frames := (page_frames pages_fresh)(0 := 1),
        free_pages := free_pages pages_fresh - 1\<rparr>)" by blast
  from C9_alloc_page [of pages_one_used] one
  have 3: "alloc_page pages_one_used = (1 * PAGE_SIZE,
      pages_one_used\<lparr>page_frames := (page_frames pages_one_used)(1 := 1),
        free_pages := free_pages pages_one_used - 1\<rparr>)" by blast
  have 4: "snd (alloc_page pages_fresh) = pages_one_used"
    unfolding 2 by (simp add: pages_fresh_def pages_one_used_def zero_manager_def)
  show ?thesis unfolding 1 3 4 unfolding 2 by (simp add: PAGE_SIZE_def)
qed


section \<open>Best-fit search\<close>




















section \<open>Coalescing\<close>

subsection \<open>Facts about lists in the store\<close>

lemma chain_null [simp]: "chain h 0 ps \<longleftrightarrow> ps = []"
  by (cases ps) auto

lemma chain_unique: "chain h p as \<Longrightarrow> chain h p bs \<Longrightarrow> as = bs"
proof (induction as arbitrary: p bs)
  case Nil
  then show ?case by simp
next
  case (Cons a as)
  then show ?case by (cases bs) auto
qed

lemma chain_suffix: "chain h p (as @ q # bs) \<Longrightarrow> chain h q (q # bs)"
  by (induction as arbitrary: p) auto

lemma chain_head_notin_tail:
  assumes "chain h p (p # qs)"
  shows "p \<notin> set qs"
proof
  assume "p \<in> set qs"
  then obtain as bs where qs: "qs = as @ p # bs" by (auto simp: in_set_conv_decomp)
  from assms have tl: "chain h (next_blk (h p)) qs" by simp
  then have "chain h p (p # bs)" unfolding qs by (rule chain_suffix)
  then have "chain h (next_blk (h p)) bs" by simp
  with tl have "qs = bs" by (rule chain_unique)
  with qs show False by simp
qed

lemma chain_distinct: "chain h p ps \<Longrightarrow> distinct ps"
proof (induction ps arbitrary: p)
  case Nil
  then show ?case by simp
next
  case (Cons q qs)
  then have "p = q" and "chain h (next_blk (h q)) qs" by auto
  moreover from Cons.prems \<open>p = q\<close> have "q \<notin> set qs" using chain_head_notin_tail by blast
  ultimately show ?case using Cons.IH by simp
qed


lemma chain_cong:
  "(\<And>q. q \<in> set ps \<Longrightarrow> next_blk (h' q) = next_blk (h q)) \<Longrightarrow> chain h' p ps = chain h p ps"
  by (induction ps arbitrary: p) auto

subsection \<open>The coalescing pass on the list of nodes\<close>

text \<open>
  The pass in the words of the specification: one forward pass; a block whose
  immediate list successor is free and begins where the block ends absorbs the
  successor's size, and the pass continues behind the absorbed block. The result
  lists the surviving blocks with their sizes.
\<close>

fun merged :: "(ptr \<Rightarrow> memory_block) \<Rightarrow> ptr list \<Rightarrow> (ptr \<times> 32 word) list" where
  "merged h [] = []"
| "merged h [p] = [(p, size_blk (h p))]"
| "merged h (p # q # rest) =
     (if is_free (h q) \<and> address (h p) + size_blk (h p) = address (h q)
      then (p, size_blk (h p) + size_blk (h q)) # merged h rest
      else (p, size_blk (h p)) # merged h (q # rest))"

lemma merged_cong:
  "(\<And>q. q \<in> set ps \<Longrightarrow> is_free (h' q) = is_free (h q) \<and> address (h' q) = address (h q) \<and>
      size_blk (h' q) = size_blk (h q)) \<Longrightarrow> merged h' ps = merged h ps"
  by (induction h ps rule: merged.induct) auto

lemma merged_subset: "set (map fst (merged h ps)) \<subseteq> set ps"
  by (induction h ps rule: merged.induct) auto

lemma merged_entry:
  "x \<in> set (merged h ps) \<Longrightarrow>
     snd x = size_blk (h (fst x)) \<or>
     (\<exists>before y after. ps = before @ fst x # y # after \<and> is_free (h y) \<and>
        address (h (fst x)) + size_blk (h (fst x)) = address (h y) \<and>
        snd x = size_blk (h (fst x)) + size_blk (h y))"
proof (induction h ps rule: merged.induct)
  case (1 h)
  then show ?case by simp
next
  case (2 h p)
  then show ?case by simp
next
  case (3 h p q rest)
  show ?case
  proof (cases "is_free (h q) \<and> address (h p) + size_blk (h p) = address (h q)")
    case True
    with "3.prems" consider "x = (p, size_blk (h p) + size_blk (h q))" | "x \<in> set (merged h rest)"
      by auto
    then show ?thesis
    proof cases
      case 1
      have "p # q # rest = [] @ fst x # q # rest" using 1 by simp
      then show ?thesis using True 1 by (metis snd_conv fst_conv)
    next
      case 2
      from "3.IH"(1) [OF True 2] show ?thesis
      proof
        assume "snd x = size_blk (h (fst x))"
        then show ?thesis by simp
      next
        assume "\<exists>before y after. rest = before @ fst x # y # after \<and> is_free (h y) \<and>
          address (h (fst x)) + size_blk (h (fst x)) = address (h y) \<and>
          snd x = size_blk (h (fst x)) + size_blk (h y)"
        then obtain before y after where r: "rest = before @ fst x # y # after"
          and y: "is_free (h y)" "address (h (fst x)) + size_blk (h (fst x)) = address (h y)"
            "snd x = size_blk (h (fst x)) + size_blk (h y)" by blast
        have "p # q # rest = (p # q # before) @ fst x # y # after" using r by simp
        with y show ?thesis by blast
      qed
    qed
  next
    case False
    with "3.prems" consider "x = (p, size_blk (h p))" | "x \<in> set (merged h (q # rest))"
      by auto
    then show ?thesis
    proof cases
      case 1
      then show ?thesis by simp
    next
      case 2
      from "3.IH"(2) [OF False 2] show ?thesis
      proof
        assume "snd x = size_blk (h (fst x))"
        then show ?thesis by simp
      next
        assume "\<exists>before y after. q # rest = before @ fst x # y # after \<and> is_free (h y) \<and>
          address (h (fst x)) + size_blk (h (fst x)) = address (h y) \<and>
          snd x = size_blk (h (fst x)) + size_blk (h y)"
        then obtain before y after where r: "q # rest = before @ fst x # y # after"
          and y: "is_free (h y)" "address (h (fst x)) + size_blk (h (fst x)) = address (h y)"
            "snd x = size_blk (h (fst x)) + size_blk (h y)" by blast
        have "p # q # rest = (p # before) @ fst x # y # after" using r by simp
        with y show ?thesis by blast
      qed
    qed
  qed
qed

definition merge_post ::
  "(ptr \<Rightarrow> memory_block) \<Rightarrow> (ptr \<Rightarrow> memory_block) \<Rightarrow> ptr \<Rightarrow> ptr list \<Rightarrow> bool" where
  "merge_post h h' p ps \<longleftrightarrow>
     chain h' p (map fst (merged h ps)) \<and>
     (\<forall>x \<in> set (merged h ps). size_blk (h' (fst x)) = snd x) \<and>
     (\<forall>q \<in> set ps. address (h' q) = address (h q) \<and> is_free (h' q) = is_free (h q)) \<and>
     (\<forall>q. q \<notin> set ps \<longrightarrow> h' q = h q)"

lemma merge_loop_chain:
  "chain h p ps \<Longrightarrow> \<exists>h'. merge_loop h p = Some h' \<and> merge_post h h' p ps"
proof (induction ps arbitrary: h p rule: length_induct)
  case (1 ps)
  show ?case
  proof (cases ps)
    case Nil
    with "1.prems" show ?thesis by (simp add: merge_loop.simps merge_post_def)
  next
    case (Cons a ps1)
    with "1.prems" have p: "p \<noteq> 0" "a = p" and tl: "chain h (next_blk (h p)) ps1" by auto
    show ?thesis
    proof (cases ps1)
      case Nil
      with tl have "next_blk (h p) = 0" by simp
      then have "merge_loop h p = Some h" using p
        by (subst merge_loop.simps) (simp add: merge_loop.simps)
      moreover have "merge_post h h p [p]" using p \<open>next_blk (h p) = 0\<close>
        by (simp add: merge_post_def)
      ultimately show ?thesis using Cons Nil p by simp
    next
      case (Cons q rest)
      with tl have q: "q \<noteq> 0" "next_blk (h p) = q" and tl2: "chain h (next_blk (h q)) rest"
        by auto
      have ps: "ps = p # q # rest" using \<open>ps = a # ps1\<close> Cons p by simp
      from "1.prems" have d: "distinct ps" by (rule chain_distinct)
      then have pq: "p \<noteq> q" and pr: "p \<notin> set rest" and qr: "q \<notin> set rest"
        unfolding ps by auto
      show ?thesis
      proof (cases "is_free (h q) \<and> address (h p) + size_blk (h p) = address (h q)")
        case False
        have c: "chain h q (q # rest)" using q tl2 by simp
        have "length (q # rest) < length ps" unfolding ps by simp
        with "1.IH" c obtain h' where h': "merge_loop h q = Some h'"
          and post: "merge_post h h' q (q # rest)" by blast
        have "merge_loop h p = Some h'" using p q False h'
          by (subst merge_loop.simps) (auto simp: Let_def)
        moreover have hp: "h' p = h p" using post pq pr by (simp add: merge_post_def)
        have "merge_post h h' p ps" using post False hp p q pq pr
          unfolding ps merge_post_def
          by (cases "merged h (q # rest)") auto
        ultimately show ?thesis by blast
      next
        case True
        define n where "n = next_blk (h q)"
        define h1 where "h1 = set_size h p (size_blk (h p) + size_blk (h q))"
        define h2 where "h2 = set_next h1 p n"
        define h3 where "h3 = (if n \<noteq> 0 then set_prev h2 n p else h2)"
        have n_rest: "n = 0 \<or> n \<in> set rest" using tl2 unfolding n_def by (cases rest) auto
        then have np: "n \<noteq> p" using p pr by auto
        have h3p: "h3 p = (h p)\<lparr>size_blk := size_blk (h p) + size_blk (h q), next_blk := n\<rparr>"
          using np by (simp add: h3_def h2_def h1_def set_prev_def set_next_def set_size_def)
        have h3o: "\<And>x. x \<noteq> p \<Longrightarrow> h3 x = (if x = n \<and> n \<noteq> 0 then (h x)\<lparr>prev_blk := p\<rparr> else h x)"
          by (simp add: h3_def h2_def h1_def set_prev_def set_next_def set_size_def)
        have h3r: "\<And>x. x \<in> set rest \<Longrightarrow>
            h3 x = (if x = n \<and> n \<noteq> 0 then (h x)\<lparr>prev_blk := p\<rparr> else h x)"
        proof -
          fix x assume "x \<in> set rest"
          with pr have "x \<noteq> p" by auto
          then show "h3 x = (if x = n \<and> n \<noteq> 0 then (h x)\<lparr>prev_blk := p\<rparr> else h x)"
            by (rule h3o)
        qed
        have step: "merge_loop h p = merge_loop h3 n"
          using p q True pq h3p
          by (subst merge_loop.simps)
            (simp add: Let_def h3_def h2_def h1_def n_def set_prev_def set_next_def set_size_def)
        have "chain h3 n rest = chain h n rest"
          by (intro chain_cong) (simp add: h3r)
        then have c: "chain h3 n rest" using tl2 n_def by simp
        have "length rest < length ps" unfolding ps by simp
        with "1.IH" c obtain h' where h': "merge_loop h3 n = Some h'"
          and post: "merge_post h3 h' n rest" by blast
        have m: "merged h3 rest = merged h rest"
          by (intro merged_cong) (simp add: h3r)
        have hp: "h' p = h3 p" using post pr by (simp add: merge_post_def)
        have hq: "h' q = h q" using post qr pq n_rest h3o [of q] by (auto simp: merge_post_def)
        have "merge_post h h' p ps"
          unfolding ps merge_post_def
        proof (intro conjI)
          show "chain h' p (map fst (merged h (p # q # rest)))"
            using True post p hp h3p m by (simp add: merge_post_def)
          show "\<forall>x \<in> set (merged h (p # q # rest)). size_blk (h' (fst x)) = snd x"
            using True post hp h3p m by (simp add: merge_post_def)
          show "\<forall>x \<in> set (p # q # rest).
              address (h' x) = address (h x) \<and> is_free (h' x) = is_free (h x)"
            using post hp h3p hq h3r by (auto simp: merge_post_def)
          show "\<forall>x. x \<notin> set (p # q # rest) \<longrightarrow> h' x = h x"
            using post h3o n_rest by (auto simp: merge_post_def)
        qed
        with step h' show ?thesis by simp
      qed
    qed
  qed
qed


text \<open>
  C5. On a null-terminated free list the coalescing pass ends and
  leaves the list of survivors that \<open>merged\<close> computes: a block that the pass
  visits and whose immediate list successor is free and starts at the block's
  address plus size absorbs that successor (size \<open>A + B\<close> in 32-bit arithmetic)
  and the pass goes on behind the absorbed block; a block absorbed by its
  predecessor is not visited. Every survivor keeps its size or has grown by the
  size of its immediate list successor, so two blocks that are not adjacent in
  the list are never merged. Addresses and free flags are unchanged, and so is
  every header outside the list.
\<close>

theorem C5_coalescing:
  assumes "chain (blocks mm) (free_blocks mm) ps"
  shows "\<exists>h'. merge_free_blocks mm = Some (mm\<lparr>blocks := h'\<rparr>) \<and>
     chain h' (free_blocks mm) (map fst (merged (blocks mm) ps)) \<and>
     (\<forall>x \<in> set (merged (blocks mm) ps). size_blk (h' (fst x)) = snd x \<and>
        (snd x = size_blk (blocks mm (fst x)) \<or>
         (\<exists>before y after. ps = before @ fst x # y # after \<and> is_free (blocks mm y) \<and>
            address (blocks mm (fst x)) + size_blk (blocks mm (fst x)) = address (blocks mm y) \<and>
            snd x = size_blk (blocks mm (fst x)) + size_blk (blocks mm y)))) \<and>
     (\<forall>q \<in> set ps. address (h' q) = address (blocks mm q) \<and>
                    is_free (h' q) = is_free (blocks mm q)) \<and>
     (\<forall>q. q \<notin> set ps \<longrightarrow> h' q = blocks mm q) \<and>
     (\<forall>x y rest. ps = x # y # rest \<and> is_free (blocks mm y) \<and>
        address (blocks mm x) + size_blk (blocks mm x) = address (blocks mm y) \<longrightarrow>
        size_blk (h' x) = size_blk (blocks mm x) + size_blk (blocks mm y) \<and>
        chain h' (free_blocks mm) (x # map fst (merged (blocks mm) rest)) \<and>
        y \<notin> set (x # map fst (merged (blocks mm) rest)))"
proof -
  from merge_loop_chain [OF assms] obtain h' where
    lp: "merge_loop (blocks mm) (free_blocks mm) = Some h'"
    and post: "merge_post (blocks mm) h' (free_blocks mm) ps" by blast
  have hd: "\<forall>x y rest. ps = x # y # rest \<and> is_free (blocks mm y) \<and>
      address (blocks mm x) + size_blk (blocks mm x) = address (blocks mm y) \<longrightarrow>
      size_blk (h' x) = size_blk (blocks mm x) + size_blk (blocks mm y) \<and>
      chain h' (free_blocks mm) (x # map fst (merged (blocks mm) rest)) \<and>
      y \<notin> set (x # map fst (merged (blocks mm) rest))"
  proof (intro allI impI)
    fix x y rest
    assume a: "ps = x # y # rest \<and> is_free (blocks mm y) \<and>
      address (blocks mm x) + size_blk (blocks mm x) = address (blocks mm y)"
    then have m: "merged (blocks mm) ps =
        (x, size_blk (blocks mm x) + size_blk (blocks mm y)) # merged (blocks mm) rest"
      by simp
    from assms have "distinct ps" by (rule chain_distinct)
    with a have "y \<noteq> x" "y \<notin> set rest" by auto
    moreover have "set (map fst (merged (blocks mm) rest)) \<subseteq> set rest"
      by (rule merged_subset)
    ultimately have y: "y \<notin> set (x # map fst (merged (blocks mm) rest))" by auto
    from post have c0: "chain h' (free_blocks mm) (map fst (merged (blocks mm) ps))"
      and sz: "\<forall>e \<in> set (merged (blocks mm) ps). size_blk (h' (fst e)) = snd e"
      unfolding merge_post_def by blast+
    have mp: "map fst (merged (blocks mm) ps) = x # map fst (merged (blocks mm) rest)"
      unfolding m by simp
    have c: "chain h' (free_blocks mm) (x # map fst (merged (blocks mm) rest))"
      using c0 unfolding mp .
    have "(x, size_blk (blocks mm x) + size_blk (blocks mm y)) \<in> set (merged (blocks mm) ps)"
      unfolding m by simp
    with sz have s: "size_blk (h' x) = size_blk (blocks mm x) + size_blk (blocks mm y)"
      by fastforce
    from s c y show "size_blk (h' x) = size_blk (blocks mm x) + size_blk (blocks mm y) \<and>
        chain h' (free_blocks mm) (x # map fst (merged (blocks mm) rest)) \<and>
        y \<notin> set (x # map fst (merged (blocks mm) rest))"
      by (intro conjI)
  qed
  have en: "\<forall>x \<in> set (merged (blocks mm) ps).
      snd x = size_blk (blocks mm (fst x)) \<or>
      (\<exists>before y after. ps = before @ fst x # y # after \<and> is_free (blocks mm y) \<and>
         address (blocks mm (fst x)) + size_blk (blocks mm (fst x)) = address (blocks mm y) \<and>
         snd x = size_blk (blocks mm (fst x)) + size_blk (blocks mm y))"
    using merged_entry by blast
  have r: "merge_free_blocks mm = Some (mm\<lparr>blocks := h'\<rparr>)"
    using lp by (simp add: merge_free_blocks_def)
  from post have p1: "chain h' (free_blocks mm) (map fst (merged (blocks mm) ps))"
    and p2: "\<forall>x \<in> set (merged (blocks mm) ps). size_blk (h' (fst x)) = snd x"
    and p3: "\<forall>q \<in> set ps. address (h' q) = address (blocks mm q) \<and>
        is_free (h' q) = is_free (blocks mm q)"
    and p4: "\<forall>q. q \<notin> set ps \<longrightarrow> h' q = blocks mm q"
    unfolding merge_post_def by blast+
  from p2 en have p2': "\<forall>x \<in> set (merged (blocks mm) ps). size_blk (h' (fst x)) = snd x \<and>
      (snd x = size_blk (blocks mm (fst x)) \<or>
       (\<exists>before y after. ps = before @ fst x # y # after \<and> is_free (blocks mm y) \<and>
          address (blocks mm (fst x)) + size_blk (blocks mm (fst x)) = address (blocks mm y) \<and>
          snd x = size_blk (blocks mm (fst x)) + size_blk (blocks mm y)))"
    by blast
  show ?thesis
    by (rule exI [of _ h']) (intro conjI r p1 p2' p3 p4 hd)
qed

text \<open>
  Two blocks of 0x10 and 0x20 bytes, adjacent in the list and in memory, become
  one block of 0x30 bytes. In \<open>separated\<close> the same two blocks are adjacent in
  memory but a third block stands between them in the list: nothing is merged.
\<close>

definition two_adjacent :: memory_manager_t where
  "two_adjacent = zero_manager\<lparr>free_blocks := 0x1000,
     blocks := (\<lambda>_. zero_block)
       (0x1000 := mk_block 0x2000 0x10 True 0x1100 0,
        0x1100 := mk_block 0x2010 0x20 True 0 0x1000)\<rparr>"

definition separated :: memory_manager_t where
  "separated = zero_manager\<lparr>free_blocks := 0x1000,
     blocks := (\<lambda>_. zero_block)
       (0x1000 := mk_block 0x2000 0x10 True 0x1200 0,
        0x1200 := mk_block 0x5000 0x40 True 0x1100 0x1000,
        0x1100 := mk_block 0x2010 0x20 True 0 0x1200)\<rparr>"

theorem C5_coalescing_witness:
  "(\<exists>h'. merge_free_blocks two_adjacent = Some (two_adjacent\<lparr>blocks := h'\<rparr>) \<and>
      chain h' 0x1000 [0x1000] \<and> size_blk (h' 0x1000) = 0x30) \<and>
   (\<exists>h'. merge_free_blocks separated = Some (separated\<lparr>blocks := h'\<rparr>) \<and>
      chain h' 0x1000 [0x1000, 0x1200, 0x1100] \<and>
      size_blk (h' 0x1000) = 0x10 \<and> size_blk (h' 0x1200) = 0x40 \<and> size_blk (h' 0x1100) = 0x20)"
proof
  have c: "chain (blocks two_adjacent) (free_blocks two_adjacent) [0x1000, 0x1100]"
    by (simp add: two_adjacent_def zero_manager_def mk_block_def)
  have m: "merged (blocks two_adjacent) [0x1000, 0x1100] = [(0x1000, 0x30)]"
    by (simp add: two_adjacent_def zero_manager_def mk_block_def)
  have f: "free_blocks two_adjacent = 0x1000"
    by (simp add: two_adjacent_def zero_manager_def)
  from C5_coalescing [OF c]
  show "\<exists>h'. merge_free_blocks two_adjacent = Some (two_adjacent\<lparr>blocks := h'\<rparr>) \<and>
      chain h' 0x1000 [0x1000] \<and> size_blk (h' 0x1000) = 0x30"
    unfolding m f by auto
next
  have c: "chain (blocks separated) (free_blocks separated) [0x1000, 0x1200, 0x1100]"
    by (simp add: separated_def zero_manager_def mk_block_def)
  have m: "merged (blocks separated) [0x1000, 0x1200, 0x1100] =
      [(0x1000, 0x10), (0x1200, 0x40), (0x1100, 0x20)]"
    by (simp add: separated_def zero_manager_def mk_block_def)
  have f: "free_blocks separated = 0x1000"
    by (simp add: separated_def zero_manager_def)
  from C5_coalescing [OF c]
  show "\<exists>h'. merge_free_blocks separated = Some (separated\<lparr>blocks := h'\<rparr>) \<and>
      chain h' 0x1000 [0x1000, 0x1200, 0x1100] \<and>
      size_blk (h' 0x1000) = 0x10 \<and> size_blk (h' 0x1200) = 0x40 \<and> size_blk (h' 0x1100) = 0x20"
    unfolding m f by auto
qed

text \<open>
  Three blocks of 0x10, 0x20 and 0x40 bytes, adjacent in the list and in memory.
  The second and the third are list-adjacent and contiguous, but the pass merges
  the first with the second and leaves the third as it is.
\<close>

definition three_contiguous :: memory_manager_t where
  "three_contiguous = zero_manager\<lparr>free_blocks := 0x1000,
     blocks := (\<lambda>_. zero_block)
       (0x1000 := mk_block 0x2000 0x10 True 0x1100 0,
        0x1100 := mk_block 0x2010 0x20 True 0x1200 0x1000,
        0x1200 := mk_block 0x2030 0x40 True 0 0x1100)\<rparr>"

theorem C5_coalescing_counterexample:
  "chain (blocks three_contiguous) (free_blocks three_contiguous) [0x1000, 0x1100, 0x1200] \<and>
   is_free (blocks three_contiguous 0x1100) \<and> is_free (blocks three_contiguous 0x1200) \<and>
   size_blk (blocks three_contiguous 0x1100) = 0x20 \<and>
   size_blk (blocks three_contiguous 0x1200) = 0x40 \<and>
   address (blocks three_contiguous 0x1100) + size_blk (blocks three_contiguous 0x1100) =
     address (blocks three_contiguous 0x1200) \<and>
   (\<exists>h'. merge_free_blocks three_contiguous = Some (three_contiguous\<lparr>blocks := h'\<rparr>) \<and>
      chain h' (free_blocks three_contiguous) [0x1000, 0x1200] \<and>
      size_blk (h' 0x1000) = 0x30 \<and> size_blk (h' 0x1200) = 0x40)"
proof -
  have c: "chain (blocks three_contiguous) (free_blocks three_contiguous) [0x1000, 0x1100, 0x1200]"
    by (simp add: three_contiguous_def zero_manager_def mk_block_def)
  have m: "merged (blocks three_contiguous) [0x1000, 0x1100, 0x1200] =
      [(0x1000, 0x30), (0x1200, 0x40)]"
    by (simp add: three_contiguous_def zero_manager_def mk_block_def)
  have f: "free_blocks three_contiguous = 0x1000"
    by (simp add: three_contiguous_def zero_manager_def)
  from merge_loop_chain [OF c] obtain h' where
    l: "merge_loop (blocks three_contiguous) (free_blocks three_contiguous) = Some h'"
    and post: "merge_post (blocks three_contiguous) h' (free_blocks three_contiguous)
      [0x1000, 0x1100, 0x1200]" by blast
  have "merge_free_blocks three_contiguous = Some (three_contiguous\<lparr>blocks := h'\<rparr>)"
    using l by (simp add: merge_free_blocks_def)
  moreover have "chain h' (free_blocks three_contiguous) [0x1000, 0x1200] \<and>
    size_blk (h' 0x1000) = 0x30 \<and> size_blk (h' 0x1200) = 0x40"
    using post unfolding merge_post_def m f by auto
  moreover have "is_free (blocks three_contiguous 0x1100) \<and>
    is_free (blocks three_contiguous 0x1200) \<and>
    size_blk (blocks three_contiguous 0x1100) = 0x20 \<and>
    size_blk (blocks three_contiguous 0x1200) = 0x40 \<and>
    address (blocks three_contiguous 0x1100) + size_blk (blocks three_contiguous 0x1100) =
      address (blocks three_contiguous 0x1200)"
    by (simp add: three_contiguous_def zero_manager_def mk_block_def)
  ultimately show ?thesis using c by blast
qed

section \<open>Reading the store after a write\<close>

lemma set_size_blk [simp]:
  "size_blk (set_type h p t q) = size_blk (h q)"
  "size_blk (set_process_id h p w q) = size_blk (h q)"
  "size_blk (set_is_free h p f q) = size_blk (h q)"
  "size_blk (set_next h p n q) = size_blk (h q)"
  "size_blk (set_prev h p n q) = size_blk (h q)"
  "size_blk (set_address h p w q) = size_blk (h q)"
  by (simp_all add: set_type_def set_process_id_def set_is_free_def set_next_def set_prev_def
      set_address_def)


lemma field_of_set [simp]:
  "address (set_address h p a q) = (if q = p then a else address (h q))"
  "size_blk (set_address h p a q) = size_blk (h q)"
  "type_blk (set_address h p a q) = type_blk (h q)"
  "process_id (set_address h p a q) = process_id (h q)"
  "is_free (set_address h p a q) = is_free (h q)"
  "next_blk (set_address h p a q) = next_blk (h q)"
  "prev_blk (set_address h p a q) = prev_blk (h q)"
  "address (set_size h p s q) = address (h q)"
  "size_blk (set_size h p s q) = (if q = p then s else size_blk (h q))"
  "type_blk (set_size h p s q) = type_blk (h q)"
  "process_id (set_size h p s q) = process_id (h q)"
  "is_free (set_size h p s q) = is_free (h q)"
  "next_blk (set_size h p s q) = next_blk (h q)"
  "prev_blk (set_size h p s q) = prev_blk (h q)"
  "address (set_type h p t q) = address (h q)"
  "size_blk (set_type h p t q) = size_blk (h q)"
  "type_blk (set_type h p t q) = (if q = p then t else type_blk (h q))"
  "process_id (set_type h p t q) = process_id (h q)"
  "is_free (set_type h p t q) = is_free (h q)"
  "next_blk (set_type h p t q) = next_blk (h q)"
  "prev_blk (set_type h p t q) = prev_blk (h q)"
  "address (set_process_id h p w q) = address (h q)"
  "size_blk (set_process_id h p w q) = size_blk (h q)"
  "type_blk (set_process_id h p w q) = type_blk (h q)"
  "process_id (set_process_id h p w q) = (if q = p then w else process_id (h q))"
  "is_free (set_process_id h p w q) = is_free (h q)"
  "next_blk (set_process_id h p w q) = next_blk (h q)"
  "prev_blk (set_process_id h p w q) = prev_blk (h q)"
  "address (set_is_free h p f q) = address (h q)"
  "size_blk (set_is_free h p f q) = size_blk (h q)"
  "type_blk (set_is_free h p f q) = type_blk (h q)"
  "process_id (set_is_free h p f q) = process_id (h q)"
  "is_free (set_is_free h p f q) = (if q = p then f else is_free (h q))"
  "next_blk (set_is_free h p f q) = next_blk (h q)"
  "prev_blk (set_is_free h p f q) = prev_blk (h q)"
  "address (set_next h p n q) = address (h q)"
  "size_blk (set_next h p n q) = size_blk (h q)"
  "type_blk (set_next h p n q) = type_blk (h q)"
  "process_id (set_next h p n q) = process_id (h q)"
  "is_free (set_next h p n q) = is_free (h q)"
  "next_blk (set_next h p n q) = (if q = p then n else next_blk (h q))"
  "prev_blk (set_next h p n q) = prev_blk (h q)"
  "address (set_prev h p m q) = address (h q)"
  "size_blk (set_prev h p m q) = size_blk (h q)"
  "type_blk (set_prev h p m q) = type_blk (h q)"
  "process_id (set_prev h p m q) = process_id (h q)"
  "is_free (set_prev h p m q) = is_free (h q)"
  "next_blk (set_prev h p m q) = next_blk (h q)"
  "prev_blk (set_prev h p m q) = (if q = p then m else prev_blk (h q))"
  by (simp_all add: set_address_def set_size_def set_type_def set_process_id_def set_is_free_def
      set_next_def set_prev_def)


section \<open>Doubly linked lists and the stores of an allocation\<close>











section \<open>Accounting of available memory\<close>







subsection \<open>Doubly linked lists under the stores of a release and of an allocation\<close>









subsection \<open>The invariant and the steps that keep it\<close>



















subsection \<open>Reachable states\<close>



text \<open>
  The state after \<open>memory_init\<close> with 64 MB of memory and the kernel zone at 0: the
  user zone starts at 0x800000 and the first block starts at 0x80001C.
\<close>

definition booted_at_zero :: memory_manager_t where
  "booted_at_zero = snd (memory_init zero_manager 0x4000000 0)"

lemmas run_defs = process_alloc_def memory_alloc_def memory_alloc_aligned_def search_block_def
  find_free_block_def find_free_loop.simps allocate_block_def split_block_def
  process_memory_destroy_def destroy_loop.simps memory_free_def find_allocated.simps
  release_block_def merge_free_blocks_def merge_loop.simps Let_def
  aligned_addr_of_def UINT32_MAX_def sizeof_memory_block_t_def MAX_PROCESSES_def
  zero_manager_def mk_block_def zero_process_def process_memory_create_def memory_init_def
  KERNEL_HEAP_SIZE_def STACK_SIZE_def





section \<open>Process teardown and the available-memory counter\<close>

text \<open>
  C4. A run of the code from \<open>memory_init\<close>: process 2 is created with 16 bytes of
  code, which leaves \<open>available_memory\<close> at 0x3EFFFF0; two calls of
  \<open>process_alloc\<close> for 29 bytes each succeed and bring it to 0x3EFFFB6, the second
  block being placed at 0x90004C behind 3 bytes of padding; destroying process 2
  then releases both blocks (the allocated list keeps the two blocks of owner 0)
  and brings \<open>available_memory\<close> to 0x3EFFFF3, 3 more than before the two
  allocations: the allocations subtracted the requested sizes 29 and 29, the
  releases added the block sizes 29 and 32. The headers of the run lie at
  0x800000, 0x80002C, 0x90002C, 0x900049 and 0x900069, at least 28 bytes apart,
  so that no store of the run reaches into another header.
\<close>

theorem C4_destroy_available_memory_run:
  "\<exists>m1. process_memory_create booted_at_zero 2 0x10 = Some (0, m1) \<and>
    available_memory m1 = 0x3EFFFF0 \<and>
    (\<exists>m2 a2. process_alloc m1 2 29 = Some (a2, m2) \<and> a2 = 0x90002C \<and>
       (\<exists>m3 a3. process_alloc m2 2 29 = Some (a3, m3) \<and> a3 = 0x90004C \<and>
          available_memory m3 = 0x3EFFFB6 \<and>
          process_id (blocks m3 0x90002C) = 2 \<and> size_blk (blocks m3 0x90002C) = 29 \<and>
          process_id (blocks m3 0x900049) = 2 \<and> size_blk (blocks m3 0x900049) = 32 \<and>
          chain (blocks m3) (allocated_blocks m3) [0x900049, 0x90002C, 0x80002C, 0x800000] \<and>
          chain (blocks m3) (free_blocks m3) [0x900069] \<and>
          (\<exists>m4. process_memory_destroy m3 2 = Some (0, m4) \<and>
             chain (blocks m4) (allocated_blocks m4) [0x80002C, 0x800000] \<and>
             chain (blocks m4) (free_blocks m4) [0x90002C, 0x900049, 0x900069] \<and>
             process_id (blocks m4 0x80002C) = 0 \<and> process_id (blocks m4 0x800000) = 0 \<and>
             available_memory m4 = 0x3EFFFF3)))"
  by (simp add: run_defs booted_at_zero_def)

end
